theory Spec2Isabelle
  imports Complex_Main
begin

section \<open>JavaScript values\<close>

text \<open>
  The worker is JavaScript, so a property of a record holds a JavaScript value. A number
  is a double: the finite ones are modelled by the rational they denote (\<open>-0\<close> is
  \<open>Finite 0\<close>: both are falsy), with \<open>NaN\<close> and the two infinities beside them
  (\<open>Infinity True\<close> is the positive one).
\<close>

datatype jsnum = NaN | Infinity bool | Finite rat

datatype jsval =
    Undefined
  | Null
  | Boolean bool
  | Number jsnum
  | Str string
  | Obj "(string \<times> jsval) list"
  | Arr "jsval list"

text \<open>ToBoolean: what \<open>!x\<close>, \<open>x || y\<close> and \<open>if (x)\<close> test.\<close>

fun truthy :: "jsval \<Rightarrow> bool" where
  "truthy Undefined = False"
| "truthy Null = False"
| "truthy (Boolean b) = b"
| "truthy (Number NaN) = False"
| "truthy (Number (Infinity _)) = True"
| "truthy (Number (Finite q)) = (q \<noteq> 0)"
| "truthy (Str s) = (s \<noteq> [])"
| "truthy (Obj _) = True"
| "truthy (Arr _) = True"

text \<open>\<open>a || b\<close>\<close>

definition js_or :: "jsval \<Rightarrow> jsval \<Rightarrow> jsval" where
  "js_or a b = (if truthy a then a else b)"

text \<open>
  \<open>Math.round\<close>: the integer nearest to the argument, a tie going up. The scorers call
  it on \<open>(availableFields / totalFields) * 100\<close>, computed here in the rationals.
\<close>

definition Math_round :: "rat \<Rightarrow> int" where
  "Math_round x = \<lfloor>x + 1 / 2\<rfloor>"

section \<open>Request headers\<close>

text \<open>
  The header list of a request, as name and value pairs. \<open>headers.get(name)\<close> compares
  names without regard to case and joins the values of a repeated header with a comma
  and a space; it is \<open>null\<close> (here \<open>None\<close>) when no header has the name.
\<close>

type_synonym headers = "(string \<times> string) list"

definition to_lower :: "char \<Rightarrow> char" where
  "to_lower c =
     (case map_of (zip ''ABCDEFGHIJKLMNOPQRSTUVWXYZ'' ''abcdefghijklmnopqrstuvwxyz'') c of
        None \<Rightarrow> c
      | Some l \<Rightarrow> l)"

fun join_values :: "string list \<Rightarrow> string" where
  "join_values [] = []"
| "join_values [v] = v"
| "join_values (v # vs) = v @ '', '' @ join_values vs"

definition headers_get :: "headers \<Rightarrow> string \<Rightarrow> string option" where
  "headers_get hs name =
     (case filter (\<lambda>(k, v). map to_lower k = map to_lower name) hs of
        [] \<Rightarrow> None
      | kvs \<Rightarrow> Some (join_values (map snd kvs)))"

text \<open>The test \<open>headers.get(field)\<close> used as a condition: a header that is there and not empty.\<close>

definition header_truthy :: "string option \<Rightarrow> bool" where
  "header_truthy v = (case v of None \<Rightarrow> False | Some s \<Rightarrow> s \<noteq> [])"

text \<open>\<open>headers.get(name) || null\<close>\<close>

definition header_or_null :: "headers \<Rightarrow> string \<Rightarrow> jsval" where
  "header_or_null hs name =
     (case headers_get hs name of None \<Rightarrow> Null | Some s \<Rightarrow> js_or (Str s) Null)"

section \<open>Quality scoring\<close>

text \<open>The level strings \<open>'unknown'\<close>, \<open>'minimal'\<close>, \<open>'limited'\<close>, \<open>'fair'\<close>, \<open>'good'\<close>, \<open>'excellent'\<close>.\<close>

datatype level = unknown | minimal | limited | fair | good | excellent

record quality =
  score :: int
  level :: level
  availableFields :: nat
  totalFields :: nat

text \<open>The header names the raw scorer counts (the array \<open>fields\<close> of \<open>calculateDataQuality\<close>).\<close>

definition fields_list :: "string list" where
  "fields_list = [''CF-IPCountry'', ''CF-Region'', ''CF-IPCity'', ''CF-IPLatitude'',
             ''CF-IPLongitude'', ''CF-Timezone'', ''CF-IPPostalCode'']"

text \<open>
  The ladder of \<open>calculateDataQuality\<close>: \<open>quality\<close> starts as \<open>'unknown'\<close> and the
  chain of comparisons assigns it.
\<close>

definition calculateDataQuality_level :: "int \<Rightarrow> level" where
  "calculateDataQuality_level percentage =
     (let quality = unknown in
      if percentage \<ge> 80 then excellent
      else if percentage \<ge> 60 then good
      else if percentage \<ge> 40 then fair
      else if percentage \<ge> 20 then limited
      else minimal)"

definition calculateDataQuality :: "headers \<Rightarrow> quality" where
  "calculateDataQuality hs =
     (let availableFields = length (filter (\<lambda>field. header_truthy (headers_get hs field)) fields_list);
          totalFields = length fields_list;
          percentage = Math_round ((of_nat availableFields / of_nat totalFields) * 100)
      in \<lparr> score = percentage,
           level = calculateDataQuality_level percentage,
           availableFields = availableFields,
           totalFields = totalFields \<rparr>)"

section \<open>Strings and numbers of the extractor\<close>

text \<open>
  \<open>s.split(c)\<close> for a one-character separator. The result is never empty: the empty
  string splits into one empty segment.
\<close>

fun split_on :: "char \<Rightarrow> string \<Rightarrow> string list" where
  "split_on c [] = [] # []"
| "split_on c (x # xs) =
     (if x = c then [] # split_on c xs
      else (case split_on c xs of [] \<Rightarrow> [x] # [] | s # ss \<Rightarrow> (x # s) # ss))"

text \<open>\<open>xs[i]\<close>, which is \<open>undefined\<close> (here \<open>None\<close>) out of range.\<close>

definition index_opt :: "'a list \<Rightarrow> nat \<Rightarrow> 'a option" where
  "index_opt xs i = (if i < length xs then Some (xs ! i) else None)"

text \<open>
  White space as \<open>trim\<close>, \<open>parseFloat\<close> and \<open>parseInt\<close> skip it. A header value is a
  byte string, each byte read as the code point of the same number, so the white space
  that can occur is tab, line feed, vertical tab, form feed, carriage return, space and
  the no-break space U+00A0 (the byte 160).
\<close>

definition is_space :: "char \<Rightarrow> bool" where
  "is_space c = ((of_char c :: nat) \<in> {9, 10, 11, 12, 13, 32, 160})"

definition trim :: "string \<Rightarrow> string" where
  "trim s = rev (dropWhile is_space (rev (dropWhile is_space s)))"

definition is_digit :: "char \<Rightarrow> bool" where
  "is_digit c = (48 \<le> (of_char c :: nat) \<and> (of_char c :: nat) \<le> 57)"

definition digits_value :: "string \<Rightarrow> nat" where
  "digits_value ds = foldl (\<lambda>n c. 10 * n + (of_char c - 48)) 0 ds"

definition pow10 :: "int \<Rightarrow> rat" where
  "pow10 e = (if e \<ge> 0 then 10 ^ nat e else 1 / 10 ^ nat (- e))"

text \<open>The value of an exponent part \<open>e\<close>, \<open>e+\<close>, \<open>e-\<close> and digits at the head of \<open>s\<close>; 0 when there is none.\<close>

definition exponent_part :: "string \<Rightarrow> int" where
  "exponent_part s =
     (case s of
        [] \<Rightarrow> 0
      | c # r \<Rightarrow>
          if c = CHR ''e'' \<or> c = CHR ''E'' then
            (case r of
               [] \<Rightarrow> 0
             | d # r' \<Rightarrow>
                 if d = CHR ''-'' then - int (digits_value (takeWhile is_digit r'))
                 else if d = CHR ''+'' then int (digits_value (takeWhile is_digit r'))
                 else int (digits_value (takeWhile is_digit r)))
          else 0)"

text \<open>
  The double of a decimal value, as far as the range goes: a value of magnitude
  \<open>2^1024 - 2^970\<close> or more (half way from the largest double to \<open>2^1024\<close>) is an
  infinity, a value of magnitude \<open>2^-1075\<close> or less (half way from zero to the smallest
  double) is zero. Between the two the exact value is kept, where JavaScript takes the
  nearest double; that value is not zero either.
\<close>

definition to_double :: "rat \<Rightarrow> jsnum" where
  "to_double v =
     (if 2 ^ 1024 - 2 ^ 970 \<le> \<bar>v\<bar> then Infinity (0 < v)
      else if \<bar>v\<bar> \<le> 1 / 2 ^ 1075 then Finite 0
      else Finite v)"

text \<open>
  \<open>parseFloat\<close>: leading white space is skipped and the longest prefix that is a decimal
  literal (sign, digits, fraction, exponent, or \<open>Infinity\<close>) gives the value; \<open>NaN\<close> when
  there is no such prefix.
\<close>

definition parseFloat :: "string \<Rightarrow> jsnum" where
  "parseFloat s =
     (let t = dropWhile is_space s;
          neg = (t \<noteq> [] \<and> hd t = CHR ''-'');
          u = (if t \<noteq> [] \<and> (hd t = CHR ''-'' \<or> hd t = CHR ''+'') then tl t else t)
      in if take 8 u = ''Infinity'' then Infinity (\<not> neg)
         else
           let ip = takeWhile is_digit u;
               r1 = dropWhile is_digit u;
               has_dot = (r1 \<noteq> [] \<and> hd r1 = CHR ''.'');
               fp = (if has_dot then takeWhile is_digit (tl r1) else []);
               r2 = (if has_dot then dropWhile is_digit (tl r1) else r1)
           in if ip = [] \<and> fp = [] then NaN
              else
                let mant = of_nat (digits_value ip) + of_nat (digits_value fp) / 10 ^ length fp;
                    v = mant * pow10 (exponent_part r2)
                in to_double (if neg then - v else v))"

text \<open>\<open>parseInt(s, 10)\<close>: white space, a sign, then the digits; \<open>NaN\<close> without a digit.\<close>

definition parseInt10 :: "string \<Rightarrow> jsnum" where
  "parseInt10 s =
     (let t = dropWhile is_space s;
          neg = (t \<noteq> [] \<and> hd t = CHR ''-'');
          u = (if t \<noteq> [] \<and> (hd t = CHR ''-'' \<or> hd t = CHR ''+'') then tl t else t);
          ds = takeWhile is_digit u
      in if ds = [] then NaN
         else to_double (if neg then - of_nat (digits_value ds) else of_nat (digits_value ds)))"

text \<open>
  \<open>if (x) x = parse(x)\<close> on a field that holds \<open>null\<close> or a header string.
\<close>

definition parse_if_set :: "(string \<Rightarrow> jsnum) \<Rightarrow> jsval \<Rightarrow> jsval" where
  "parse_if_set parse v = (case v of Str s \<Rightarrow> (if truthy v then Number (parse s) else v) | _ \<Rightarrow> v)"

section \<open>The location record\<close>

record fallback_data =
  source :: string
  city :: jsval
  region :: jsval
  latitude :: jsval
  longitude :: jsval
  timezone :: jsval
  postalCode :: jsval
  org :: jsval

text \<open>
  \<open>dataQuality\<close> is what the raw scorer returns; the enhanced route adds \<open>enhanced\<close> and
  \<open>enhancedScore\<close> to that object. A property that was never assigned is \<open>None\<close>.
\<close>

record data_quality = quality +
  enhanced :: "bool option"
  enhancedScore :: "quality option"

record locationData =
  ip :: string
  country :: jsval
  region :: jsval
  regionCode :: jsval
  city :: jsval
  postalCode :: jsval
  timezone :: jsval
  latitude :: jsval
  longitude :: jsval
  metroCode :: jsval
  continent :: jsval
  asn :: jsval
  colo :: jsval
  timestamp :: string
  userAgent :: jsval
  acceptLanguage :: jsval
  requestId :: jsval
  visitorId :: jsval
  ipType :: string
  dataQuality :: data_quality
  fallback :: "fallback_data option"
  fallbackError :: "string option"

text \<open>
  A request: \<open>request.method\<close> (the field \<open>http_method\<close>), the path of its URL and
  its headers.
\<close>

record request =
  http_method :: string
  pathname :: string
  headers :: headers

text \<open>
  \<open>extractLocationData\<close>. \<open>now\<close> is \<open>new Date().toISOString()\<close> at the time of the call.
\<close>

definition extractLocationData :: "string \<Rightarrow> request \<Rightarrow> locationData" where
  "extractLocationData now req =
     (let hs = headers req;
          forwarded = map_option (\<lambda>s. trim (hd (split_on CHR '','' s))) (headers_get hs ''X-Forwarded-For'');
          ip = (if header_truthy (headers_get hs ''CF-Connecting-IP'')
                then the (headers_get hs ''CF-Connecting-IP'')
                else if header_truthy forwarded then the forwarded
                else ''unknown'');
          ray = headers_get hs ''CF-Ray'';
          colo_segment = Option.bind ray (\<lambda>s. index_opt (split_on CHR ''-'' s) 1);
          q = calculateDataQuality hs
      in \<lparr> ip = ip,
           country = header_or_null hs ''CF-IPCountry'',
           region = header_or_null hs ''CF-Region'',
           regionCode = header_or_null hs ''CF-Region-Code'',
           city = header_or_null hs ''CF-IPCity'',
           postalCode = header_or_null hs ''CF-postal-code'',
           timezone = header_or_null hs ''CF-Timezone'',
           latitude = parse_if_set parseFloat (header_or_null hs ''CF-IPLatitude''),
           longitude = parse_if_set parseFloat (header_or_null hs ''CF-IPLongitude''),
           metroCode = parse_if_set parseInt10 (header_or_null hs ''CF-MetroCode''),
           continent = header_or_null hs ''CF-IPContinent'',
           asn = parse_if_set parseInt10 (header_or_null hs ''CF-ASN''),
           colo = (case colo_segment of None \<Rightarrow> Null | Some s \<Rightarrow> js_or (Str s) Null),
           timestamp = now,
           userAgent = header_or_null hs ''User-Agent'',
           acceptLanguage = header_or_null hs ''Accept-Language'',
           requestId = header_or_null hs ''CF-Ray'',
           visitorId = header_or_null hs ''CF-Visitor'',
           ipType = (if CHR '':'' \<in> set ip then ''IPv6'' else ''IPv4''),
           dataQuality = \<lparr> score = score q, level = level q,
                           availableFields = availableFields q, totalFields = totalFields q,
                           enhanced = None, enhancedScore = None \<rparr>,
           fallback = None,
           fallbackError = None \<rparr>)"

section \<open>The enhanced scorer\<close>

definition mainFields :: "string list" where
  "mainFields = [''country'', ''region'', ''city'', ''latitude'', ''longitude'', ''timezone'',
                 ''postalCode'']"

text \<open>
  \<open>locationData[field]\<close> for the properties that hold a plain value; the scorer asks
  for the names of \<open>mainFields\<close> only. A name the record does not have reads as
  \<open>undefined\<close>.
\<close>

definition locationData_prop :: "locationData \<Rightarrow> string \<Rightarrow> jsval" where
  "locationData_prop ld field =
     (if field = ''ip'' then Str (ip ld)
      else if field = ''country'' then country ld
      else if field = ''region'' then region ld
      else if field = ''regionCode'' then regionCode ld
      else if field = ''city'' then city ld
      else if field = ''postalCode'' then postalCode ld
      else if field = ''timezone'' then timezone ld
      else if field = ''latitude'' then latitude ld
      else if field = ''longitude'' then longitude ld
      else if field = ''metroCode'' then metroCode ld
      else if field = ''continent'' then continent ld
      else if field = ''asn'' then asn ld
      else if field = ''colo'' then colo ld
      else if field = ''timestamp'' then Str (timestamp ld)
      else if field = ''userAgent'' then userAgent ld
      else if field = ''acceptLanguage'' then acceptLanguage ld
      else if field = ''requestId'' then requestId ld
      else if field = ''visitorId'' then visitorId ld
      else if field = ''ipType'' then Str (ipType ld)
      else Undefined)"

text \<open>The ladder of \<open>calculateEnhancedDataQuality\<close>, written out a second time in the source.\<close>

definition calculateEnhancedDataQuality_level :: "int \<Rightarrow> level" where
  "calculateEnhancedDataQuality_level percentage =
     (let quality = unknown in
      if percentage \<ge> 80 then excellent
      else if percentage \<ge> 60 then good
      else if percentage \<ge> 40 then fair
      else if percentage \<ge> 20 then limited
      else minimal)"

definition calculateEnhancedDataQuality :: "locationData \<Rightarrow> quality" where
  "calculateEnhancedDataQuality ld =
     (let availableFields = length (filter (\<lambda>field. locationData_prop ld field \<noteq> Null) mainFields);
          percentage = Math_round ((of_nat availableFields / of_nat (length mainFields)) * 100)
      in \<lparr> score = percentage,
           level = calculateEnhancedDataQuality_level percentage,
           availableFields = availableFields,
           totalFields = length mainFields \<rparr>)"

section \<open>Responses\<close>

text \<open>
  The body of a response, before \<open>JSON.stringify\<close> turns it into text (which leaves out
  a property whose value is \<open>undefined\<close>). \<open>ErrorJson\<close> is the body of the 500
  answers, the fixed text and the message.
\<close>

datatype body =
    NoBody
  | Text string
  | LocationJson locationData
  | HealthJson string
  | ErrorJson string string

record response =
  status :: nat
  headers :: "(string \<times> string) list"
  body :: body

definition getCORSHeaders :: "(string \<times> string) list" where
  "getCORSHeaders =
     [(''Access-Control-Allow-Origin'', ''*''),
      (''Access-Control-Allow-Methods'', ''GET, POST, OPTIONS''),
      (''Access-Control-Allow-Headers'', ''Content-Type, Authorization''),
      (''Access-Control-Max-Age'', ''86400'')]"

definition handleCORS :: response where
  "handleCORS = \<lparr> status = 200, headers = getCORSHeaders, body = NoBody \<rparr>"

definition json_response :: "nat \<Rightarrow> body \<Rightarrow> response" where
  "json_response st b =
     \<lparr> status = st, headers = (''Content-Type'', ''application/json'') # getCORSHeaders, body = b \<rparr>"

text \<open>
  \<open>handleLocationRequest\<close>. Nothing in \<open>extractLocationData\<close> throws, so the \<open>catch\<close>
  that answers 500 is no branch here.
\<close>

definition handleLocationRequest :: "string \<Rightarrow> request \<Rightarrow> response" where
  "handleLocationRequest now req = json_response 200 (LocationJson (extractLocationData now req))"

section \<open>The enhancement\<close>

text \<open>
  What the world answers to \<open>fetch(url)\<close>: the call throws with a message, or gives a
  response with its \<open>ok\<close> flag, whose \<open>json()\<close> throws with a message or gives the parsed
  value.
\<close>

datatype json_result = JsonThrows string | JsonValue jsval

datatype fetch_result = FetchThrows string | FetchResponse bool json_result

text \<open>
  \<open>v.key\<close> on a value that is neither \<open>null\<close> nor \<open>undefined\<close>: the last entry of an
  object with that key, \<open>undefined\<close> without one. (The keys read here are no property of
  a string, a number, a boolean or an array.)
\<close>

definition get_property :: "jsval \<Rightarrow> string \<Rightarrow> jsval" where
  "get_property v key =
     (case v of
        Obj kvs \<Rightarrow> (case map_of (rev kvs) key of None \<Rightarrow> Undefined | Some x \<Rightarrow> x)
      | _ \<Rightarrow> Undefined)"

text \<open>The message of the TypeError that reading \<open>key\<close> of \<open>null\<close> or \<open>undefined\<close> throws.\<close>

definition type_error_message :: "jsval \<Rightarrow> string \<Rightarrow> string" where
  "type_error_message v key =
     ''Cannot read properties of '' @ (if v = Null then ''null'' else ''undefined'')
       @ '' (reading '' @ [CHR 0x27] @ key @ [CHR 0x27] @ '')''"

text \<open>
  The body of \<open>if (fallbackResponse.ok)\<close> after \<open>json()\<close> has returned: the first
  property read throws on \<open>null\<close>, before anything is assigned; otherwise \<open>fallback\<close> is
  set, the six fields are filled and the quality is computed again.
\<close>

definition merge_fallback :: "jsval \<Rightarrow> locationData \<Rightarrow> string + locationData" where
  "merge_fallback fallbackData locationData =
     (if fallbackData = Null \<or> fallbackData = Undefined
      then Inl (type_error_message fallbackData ''city'')
      else
        let l0 = locationData\<lparr> fallback := Some
                   \<lparr> source = ''ipapi.co'',
                     fallback_data.city = js_or (get_property fallbackData ''city'') Null,
                     fallback_data.region = js_or (get_property fallbackData ''region'') Null,
                     fallback_data.latitude = js_or (get_property fallbackData ''latitude'') Null,
                     fallback_data.longitude = js_or (get_property fallbackData ''longitude'') Null,
                     fallback_data.timezone = js_or (get_property fallbackData ''timezone'') Null,
                     fallback_data.postalCode = js_or (get_property fallbackData ''postal'') Null,
                     org = js_or (get_property fallbackData ''org'') Null \<rparr> \<rparr>;
            l1 = (if \<not> truthy (city l0) then l0\<lparr> city := get_property fallbackData ''city'' \<rparr> else l0);
            l2 = (if \<not> truthy (region l1) then l1\<lparr> region := get_property fallbackData ''region'' \<rparr> else l1);
            l3 = (if \<not> truthy (latitude l2) then l2\<lparr> latitude := get_property fallbackData ''latitude'' \<rparr> else l2);
            l4 = (if \<not> truthy (longitude l3) then l3\<lparr> longitude := get_property fallbackData ''longitude'' \<rparr> else l3);
            l5 = (if \<not> truthy (timezone l4) then l4\<lparr> timezone := get_property fallbackData ''timezone'' \<rparr> else l4);
            l6 = (if \<not> truthy (postalCode l5) then l5\<lparr> postalCode := get_property fallbackData ''postal'' \<rparr> else l5);
            l7 = l6\<lparr> dataQuality := (dataQuality l6)\<lparr> enhanced := Some True \<rparr> \<rparr>;
            l8 = l7\<lparr> dataQuality := (dataQuality l7)\<lparr> enhancedScore := Some (calculateEnhancedDataQuality l7) \<rparr> \<rparr>
        in Inr l8)"

text \<open>The inner \<open>try\<close> block: \<open>Inl\<close> is the message of what it throws.\<close>

definition fallback_url :: "locationData \<Rightarrow> string" where
  "fallback_url locationData = ''https://ipapi.co/'' @ ip locationData @ ''/json/''"

definition try_fallback :: "(string \<Rightarrow> fetch_result) \<Rightarrow> locationData \<Rightarrow> string + locationData" where
  "try_fallback outbound locationData =
     (case outbound (fallback_url locationData) of
        FetchThrows msg \<Rightarrow> Inl msg
      | FetchResponse ok parsed \<Rightarrow>
          if ok then
            (case parsed of
               JsonThrows msg \<Rightarrow> Inl msg
             | JsonValue fallbackData \<Rightarrow> merge_fallback fallbackData locationData)
          else Inr locationData)"

text \<open>
  \<open>handleEnhancedLocationRequest\<close>, with the list of the URLs it has fetched. What the
  inner \<open>try\<close> throws is caught there, and nothing else in the outer \<open>try\<close> throws, so the
  \<open>catch\<close> that answers 500 is no branch here.
\<close>

definition handleEnhancedLocationRequest ::
  "(string \<Rightarrow> fetch_result) \<Rightarrow> string \<Rightarrow> request \<Rightarrow> response \<times> string list" where
  "handleEnhancedLocationRequest outbound now req =
     (let locationData = extractLocationData now req in
      if level (dataQuality locationData) = minimal \<or> level (dataQuality locationData) = limited
      then
        (case try_fallback outbound locationData of
           Inr enhancedData \<Rightarrow> (json_response 200 (LocationJson enhancedData), [fallback_url locationData])
         | Inl message \<Rightarrow>
             (json_response 200 (LocationJson (locationData\<lparr> fallbackError := Some message \<rparr>)),
              [fallback_url locationData]))
      else (json_response 200 (LocationJson locationData), []))"

section \<open>Routing\<close>

text \<open>
  The worker's \<open>fetch\<close> handler. \<open>pathname\<close> is \<open>new URL(request.url).pathname\<close>; the
  argument \<open>now\<close> is the time stamp of the health answer too.
\<close>

definition fetch :: "(string \<Rightarrow> fetch_result) \<Rightarrow> string \<Rightarrow> request \<Rightarrow> response \<times> string list" where
  "fetch outbound now req =
     (if http_method req = ''OPTIONS'' then (handleCORS, [])
      else if pathname req = ''/location'' \<or> pathname req = ''/'' then (handleLocationRequest now req, [])
      else if pathname req = ''/location-enhanced'' then handleEnhancedLocationRequest outbound now req
      else if pathname req = ''/health'' then (json_response 200 (HealthJson now), [])
      else (\<lparr> status = 404, headers = getCORSHeaders, body = Text ''Not Found'' \<rparr>, []))"

section \<open>Sample requests and answers of the external service\<close>

text \<open>Concrete inputs for the scenarios: a GET request with given path and headers, and a time stamp.\<close>

definition sample_request :: "string \<Rightarrow> headers \<Rightarrow> request" where
  "sample_request path hs = \<lparr> http_method = ''GET'', pathname = path, request.headers = hs \<rparr>"

definition sample_now :: string where
  "sample_now = ''2024-01-01T00:00:00.000Z''"

text \<open>
  Answers of the external service: the call fails, the body is no JSON, the service
  refuses with a status that is not 2xx, it knows the city and the region only, it knows
  the latitude only.
\<close>

definition outbound_offline :: "string \<Rightarrow> fetch_result" where
  "outbound_offline url = FetchThrows ''Network connection lost''"

definition outbound_bad_json :: "string \<Rightarrow> fetch_result" where
  "outbound_bad_json url = FetchResponse True (JsonThrows ''Unexpected end of JSON input'')"

definition outbound_rate_limited :: "string \<Rightarrow> fetch_result" where
  "outbound_rate_limited url =
     FetchResponse False (JsonValue (Obj [(''error'', Boolean True), (''reason'', Str ''RateLimited'')]))"

definition outbound_paris :: "string \<Rightarrow> fetch_result" where
  "outbound_paris url =
     FetchResponse True (JsonValue (Obj [(''city'', Str ''Paris''), (''region'', Str ''IDF'')]))"

definition outbound_latitude :: "string \<Rightarrow> fetch_result" where
  "outbound_latitude url =
     FetchResponse True (JsonValue (Obj [(''latitude'', Number (Finite (977 / 20)))]))"

section \<open>Notions of the specification\<close>

text \<open>The location record a response carries, if it carries one.\<close>

definition response_location :: "response \<Rightarrow> locationData option" where
  "response_location r = (case body r of LocationJson ld \<Rightarrow> Some ld | _ \<Rightarrow> None)"

text \<open>
  The number of the seven designated attributes that are set on a record, that is hold
  a value: neither \<open>null\<close> nor \<open>undefined\<close>.
\<close>

definition set_attributes :: "locationData \<Rightarrow> nat" where
  "set_attributes ld =
     length (filter (\<lambda>field. locationData_prop ld field \<noteq> Null \<and> locationData_prop ld field \<noteq> Undefined)
       mainFields)"

text \<open>The order of the quality tiers, from \<open>minimal\<close> up to \<open>excellent\<close>.\<close>

definition tier_rank :: "level \<Rightarrow> nat" where
  "tier_rank l = (case l of unknown \<Rightarrow> 0 | minimal \<Rightarrow> 1 | limited \<Rightarrow> 2 | fair \<Rightarrow> 3 | good \<Rightarrow> 4 | excellent \<Rightarrow> 5)"


section \<open>Auxiliary facts\<close>

subsection \<open>Looking headers up\<close>

lemma headers_get_Nil: "headers_get [] n = None"
  by (simp add: headers_get_def)

lemma headers_get_Cons:
  "headers_get ((k, v) # hs) n =
     (if map to_lower k = map to_lower n
      then Some (case headers_get hs n of None \<Rightarrow> v | Some w \<Rightarrow> v @ '', '' @ w)
      else headers_get hs n)"
  by (simp add: headers_get_def split: list.splits)

subsection \<open>The fields of the extracted record\<close>

lemma extract_ip:
  "ip (extractLocationData now req) =
     (if header_truthy (headers_get (request.headers req) ''CF-Connecting-IP'')
      then the (headers_get (request.headers req) ''CF-Connecting-IP'')
      else if header_truthy (map_option (\<lambda>s. trim (hd (split_on CHR '','' s)))
                 (headers_get (request.headers req) ''X-Forwarded-For''))
      then the (map_option (\<lambda>s. trim (hd (split_on CHR '','' s)))
                 (headers_get (request.headers req) ''X-Forwarded-For''))
      else ''unknown'')"
  by (simp add: extractLocationData_def Let_def)

lemma extract_ipType:
  "ipType (extractLocationData now req) =
     (if CHR '':'' \<in> set (ip (extractLocationData now req)) then ''IPv6'' else ''IPv4'')"
  by (simp add: extractLocationData_def Let_def)

lemma extract_fields:
  "country (extractLocationData now req) = header_or_null (request.headers req) ''CF-IPCountry''"
  "region (extractLocationData now req) = header_or_null (request.headers req) ''CF-Region''"
  "city (extractLocationData now req) = header_or_null (request.headers req) ''CF-IPCity''"
  "postalCode (extractLocationData now req) = header_or_null (request.headers req) ''CF-postal-code''"
  "timezone (extractLocationData now req) = header_or_null (request.headers req) ''CF-Timezone''"
  "latitude (extractLocationData now req) =
     parse_if_set parseFloat (header_or_null (request.headers req) ''CF-IPLatitude'')"
  "longitude (extractLocationData now req) =
     parse_if_set parseFloat (header_or_null (request.headers req) ''CF-IPLongitude'')"
  by (simp_all add: extractLocationData_def Let_def)

lemma extract_quality:
  "score (dataQuality (extractLocationData now req)) = score (calculateDataQuality (request.headers req))"
  "level (dataQuality (extractLocationData now req)) = level (calculateDataQuality (request.headers req))"
  "availableFields (dataQuality (extractLocationData now req)) =
     availableFields (calculateDataQuality (request.headers req))"
  "totalFields (dataQuality (extractLocationData now req)) =
     totalFields (calculateDataQuality (request.headers req))"
  "enhanced (dataQuality (extractLocationData now req)) = None"
  "enhancedScore (dataQuality (extractLocationData now req)) = None"
  "fallback (extractLocationData now req) = None"
  "fallbackError (extractLocationData now req) = None"
  by (simp_all add: extractLocationData_def Let_def)


subsection \<open>Rounding a ratio of sevenths\<close>

text \<open>
  \<open>Math.round\<close> of a fraction is an integer division; for \<open>k\<close> fields out of seven
  the score is \<open>(200 * k + 7) div 14\<close>, at a distance below a half from \<open>100 * k / 7\<close>.
\<close>

lemma Math_round_fraction:
  assumes "0 < b"
  shows "Math_round (of_int a / of_int b) = (2 * a + b) div (2 * b)"
proof -
  have "(of_int a / of_int b + 1 / 2 :: rat) = of_int (2 * a + b) / of_int (2 * b)"
    using assms by (simp add: field_simps)
  then show ?thesis
    unfolding Math_round_def by (simp only: floor_divide_of_int_eq)
qed

lemma Math_round_sevenths:
  "Math_round ((of_nat k / of_nat 7) * 100) = (200 * int k + 7) div 14"
  using Math_round_fraction [of 7 "100 * int k"] by (simp add: mult.commute)



subsection \<open>The two scorers\<close>

lemma length_fields: "length fields_list = 7"
  by (simp add: fields_list_def)

lemma length_mainFields: "length mainFields = 7"
  by (simp add: mainFields_def)



lemma availableFields_raw:
  "availableFields (calculateDataQuality hs) =
     length (filter (\<lambda>field. header_truthy (headers_get hs field)) fields_list)"
  by (simp add: calculateDataQuality_def Let_def)

lemma totalFields_raw: "totalFields (calculateDataQuality hs) = 7"
  by (simp add: calculateDataQuality_def Let_def length_fields)

lemma score_raw:
  "score (calculateDataQuality hs) = (200 * int (availableFields (calculateDataQuality hs)) + 7) div 14"
  using Math_round_sevenths [of "length (filter (\<lambda>field. header_truthy (headers_get hs field)) fields_list)"]
  by (simp add: calculateDataQuality_def Let_def length_fields)

lemma level_raw:
  "level (calculateDataQuality hs) = calculateDataQuality_level (score (calculateDataQuality hs))"
  by (simp add: calculateDataQuality_def Let_def)

lemma availableFields_enhanced:
  "availableFields (calculateEnhancedDataQuality ld) =
     length (filter (\<lambda>field. locationData_prop ld field \<noteq> Null) mainFields)"
  by (simp add: calculateEnhancedDataQuality_def Let_def)

lemma totalFields_enhanced: "totalFields (calculateEnhancedDataQuality ld) = 7"
  by (simp add: calculateEnhancedDataQuality_def Let_def length_mainFields)

lemma score_enhanced:
  "score (calculateEnhancedDataQuality ld) =
     (200 * int (availableFields (calculateEnhancedDataQuality ld)) + 7) div 14"
  using Math_round_sevenths [of "length (filter (\<lambda>field. locationData_prop ld field \<noteq> Null) mainFields)"]
  by (simp add: calculateEnhancedDataQuality_def Let_def length_mainFields)

lemma level_enhanced:
  "level (calculateEnhancedDataQuality ld) =
     calculateEnhancedDataQuality_level (score (calculateEnhancedDataQuality ld))"
  by (simp add: calculateEnhancedDataQuality_def Let_def)

lemma levels_agree: "calculateDataQuality_level p = calculateEnhancedDataQuality_level p"
  by (simp add: calculateDataQuality_level_def calculateEnhancedDataQuality_level_def)

subsection \<open>The handler of the enhanced route\<close>

lemma handler_skips:
  assumes "level (dataQuality (extractLocationData now req)) \<noteq> minimal"
    and "level (dataQuality (extractLocationData now req)) \<noteq> limited"
  shows "handleEnhancedLocationRequest outbound now req =
           (json_response 200 (LocationJson (extractLocationData now req)), [])"
  using assms by (simp add: handleEnhancedLocationRequest_def Let_def)

lemma handler_escalates:
  assumes "level (dataQuality (extractLocationData now req)) = minimal \<or>
           level (dataQuality (extractLocationData now req)) = limited"
  shows "handleEnhancedLocationRequest outbound now req =
           (json_response 200 (LocationJson
              (case try_fallback outbound (extractLocationData now req) of
                 Inr enhancedData \<Rightarrow> enhancedData
               | Inl message \<Rightarrow> (extractLocationData now req)\<lparr> fallbackError := Some message \<rparr>)),
            [fallback_url (extractLocationData now req)])"
  using assms by (auto simp add: handleEnhancedLocationRequest_def Let_def split: sum.splits)

subsection \<open>The merge\<close>

text \<open>
  Each guarded assignment \<open>if (!x.f) x.f = v\<close> is an update of the field \<open>f\<close>, so the
  merge is a chain of updates on the baseline record.
\<close>

lemma fill_steps:
  "(if \<not> truthy (city l) then l\<lparr> city := v \<rparr> else l) = city_update (\<lambda>c. if truthy c then c else v) l"
  "(if \<not> truthy (region l) then l\<lparr> region := v \<rparr> else l) = region_update (\<lambda>c. if truthy c then c else v) l"
  "(if \<not> truthy (latitude l) then l\<lparr> latitude := v \<rparr> else l) = latitude_update (\<lambda>c. if truthy c then c else v) l"
  "(if \<not> truthy (longitude l) then l\<lparr> longitude := v \<rparr> else l) = longitude_update (\<lambda>c. if truthy c then c else v) l"
  "(if \<not> truthy (timezone l) then l\<lparr> timezone := v \<rparr> else l) = timezone_update (\<lambda>c. if truthy c then c else v) l"
  "(if \<not> truthy (postalCode l) then l\<lparr> postalCode := v \<rparr> else l) = postalCode_update (\<lambda>c. if truthy c then c else v) l"
  by (cases l; simp)+

lemma merge_fallback_closed:
  "merge_fallback fd ld =
     (if fd = Null \<or> fd = Undefined then Inl (type_error_message fd ''city'')
      else Inr (
        let l6 = postalCode_update (\<lambda>c. if truthy c then c else get_property fd ''postal'')
                (timezone_update (\<lambda>c. if truthy c then c else get_property fd ''timezone'')
                (longitude_update (\<lambda>c. if truthy c then c else get_property fd ''longitude'')
                (latitude_update (\<lambda>c. if truthy c then c else get_property fd ''latitude'')
                (region_update (\<lambda>c. if truthy c then c else get_property fd ''region'')
                (city_update (\<lambda>c. if truthy c then c else get_property fd ''city'')
                (ld\<lparr> fallback := Some
                   \<lparr> source = ''ipapi.co'',
                     fallback_data.city = js_or (get_property fd ''city'') Null,
                     fallback_data.region = js_or (get_property fd ''region'') Null,
                     fallback_data.latitude = js_or (get_property fd ''latitude'') Null,
                     fallback_data.longitude = js_or (get_property fd ''longitude'') Null,
                     fallback_data.timezone = js_or (get_property fd ''timezone'') Null,
                     fallback_data.postalCode = js_or (get_property fd ''postal'') Null,
                     org = js_or (get_property fd ''org'') Null \<rparr> \<rparr>))))));
            l7 = l6\<lparr> dataQuality := (dataQuality l6)\<lparr> enhanced := Some True \<rparr> \<rparr>
        in l7\<lparr> dataQuality := (dataQuality l7)\<lparr> enhancedScore := Some (calculateEnhancedDataQuality l7) \<rparr> \<rparr>))"
  unfolding merge_fallback_def fill_steps
  by (simp only: Let_def)




lemma merge_fallback_Inr:
  assumes "merge_fallback fd ld = Inr ld'"
  shows "fd \<noteq> Null \<and> fd \<noteq> Undefined"
  using assms by (auto simp add: merge_fallback_closed split: if_splits)

lemma merge_fallback_main:
  assumes "merge_fallback fd ld = Inr ld'"
  shows "city ld' = (if truthy (city ld) then city ld else get_property fd ''city'')"
    and "region ld' = (if truthy (region ld) then region ld else get_property fd ''region'')"
    and "latitude ld' = (if truthy (latitude ld) then latitude ld else get_property fd ''latitude'')"
    and "longitude ld' = (if truthy (longitude ld) then longitude ld else get_property fd ''longitude'')"
    and "timezone ld' = (if truthy (timezone ld) then timezone ld else get_property fd ''timezone'')"
    and "postalCode ld' = (if truthy (postalCode ld) then postalCode ld else get_property fd ''postal'')"
    and "enhanced (dataQuality ld') = Some True"
proof -
  have n: "\<not> (fd = Null \<or> fd = Undefined)"
    using merge_fallback_Inr [OF assms] by simp
  have e: "ld' = projr (merge_fallback fd ld)" using assms by simp
  show "city ld' = (if truthy (city ld) then city ld else get_property fd ''city'')"
    unfolding e by (simp add: merge_fallback_closed n Let_def)
  show "region ld' = (if truthy (region ld) then region ld else get_property fd ''region'')"
    unfolding e by (simp add: merge_fallback_closed n Let_def)
  show "latitude ld' = (if truthy (latitude ld) then latitude ld else get_property fd ''latitude'')"
    unfolding e by (simp add: merge_fallback_closed n Let_def)
  show "longitude ld' = (if truthy (longitude ld) then longitude ld else get_property fd ''longitude'')"
    unfolding e by (simp add: merge_fallback_closed n Let_def)
  show "timezone ld' = (if truthy (timezone ld) then timezone ld else get_property fd ''timezone'')"
    unfolding e by (simp add: merge_fallback_closed n Let_def)
  show "postalCode ld' = (if truthy (postalCode ld) then postalCode ld else get_property fd ''postal'')"
    unfolding e by (simp add: merge_fallback_closed n Let_def)
  show "enhanced (dataQuality ld') = Some True"
    unfolding e by (simp add: merge_fallback_closed n Let_def)
qed

lemma merge_fallback_frame:
  assumes "merge_fallback fd ld = Inr ld'"
  shows "ip ld' = ip ld \<and> country ld' = country ld \<and> regionCode ld' = regionCode ld \<and>
    metroCode ld' = metroCode ld \<and> continent ld' = continent ld \<and> asn ld' = asn ld \<and>
    colo ld' = colo ld \<and> timestamp ld' = timestamp ld \<and> userAgent ld' = userAgent ld \<and>
    acceptLanguage ld' = acceptLanguage ld \<and> requestId ld' = requestId ld \<and>
    visitorId ld' = visitorId ld \<and> ipType ld' = ipType ld \<and>
    fallbackError ld' = fallbackError ld \<and>
    score (dataQuality ld') = score (dataQuality ld) \<and>
    level (dataQuality ld') = level (dataQuality ld) \<and>
    availableFields (dataQuality ld') = availableFields (dataQuality ld) \<and>
    totalFields (dataQuality ld') = totalFields (dataQuality ld)"
proof -
  have n: "\<not> (fd = Null \<or> fd = Undefined)"
    using merge_fallback_Inr [OF assms] by simp
  have e: "ld' = projr (merge_fallback fd ld)" using assms by simp
  show ?thesis
    unfolding e by (simp add: merge_fallback_closed n Let_def)
qed

lemma enhanced_scorer_reads_main_fields:
  assumes "country a = country b" "region a = region b" "city a = city b" "latitude a = latitude b"
    "longitude a = longitude b" "timezone a = timezone b" "postalCode a = postalCode b"
  shows "calculateEnhancedDataQuality a = calculateEnhancedDataQuality b"
proof -
  have "\<forall>f \<in> set mainFields. locationData_prop a f = locationData_prop b f"
    by (simp add: mainFields_def locationData_prop_def assms)
  then have "filter (\<lambda>f. locationData_prop a f \<noteq> Null) mainFields =
             filter (\<lambda>f. locationData_prop b f \<noteq> Null) mainFields"
    by (intro filter_cong) auto
  then show ?thesis
    by (simp add: calculateEnhancedDataQuality_def)
qed

lemma enhanced_scorer_ignores_dataQuality:
  "calculateEnhancedDataQuality (l\<lparr> dataQuality := q \<rparr>) = calculateEnhancedDataQuality l"
  by (rule enhanced_scorer_reads_main_fields) simp_all

lemma merge_fallback_enhancedScore:
  assumes "merge_fallback fd ld = Inr ld'"
  shows "enhancedScore (dataQuality ld') = Some (calculateEnhancedDataQuality ld')"
proof -
  have n: "\<not> (fd = Null \<or> fd = Undefined)"
    using merge_fallback_Inr [OF assms] by simp
  have e: "ld' = projr (merge_fallback fd ld)" using assms by simp
  show ?thesis
    unfolding e by (simp add: merge_fallback_closed n Let_def enhanced_scorer_ignores_dataQuality)
qed

lemma merge_fallback_sets_fallback:
  assumes "merge_fallback fd ld = Inr ld'"
  shows "fallback ld' \<noteq> None"
proof -
  have n: "\<not> (fd = Null \<or> fd = Undefined)"
    using merge_fallback_Inr [OF assms] by simp
  have e: "ld' = projr (merge_fallback fd ld)" using assms by simp
  show ?thesis
    unfolding e by (simp add: merge_fallback_closed n Let_def)
qed

lemma try_fallback_reads_one_url:
  "outbound (fallback_url ld) = outbound' (fallback_url ld) \<Longrightarrow>
   try_fallback outbound ld = try_fallback outbound' ld"
  by (simp add: try_fallback_def)

lemma merge_fallback_returns:
  "fd \<noteq> Null \<Longrightarrow> fd \<noteq> Undefined \<Longrightarrow> \<exists>ld'. merge_fallback fd ld = Inr ld'"
  by (simp add: merge_fallback_closed)




subsection \<open>The sample requests\<close>

lemmas header_eval = sample_request_def headers_get_Nil headers_get_Cons to_lower_def header_truthy_def
  header_or_null_def js_or_def parse_if_set_def

lemma no_headers_available:
  "availableFields (calculateDataQuality []) = 0"
  by (simp add: availableFields_raw fields_list_def header_eval)

lemma no_headers_level:
  "level (dataQuality (extractLocationData now (sample_request path []))) = minimal"
  by (simp add: extract_quality level_raw score_raw no_headers_available calculateDataQuality_level_def header_eval)

lemma try_fallback_ok:
  "outbound (fallback_url ld) = FetchResponse True (JsonValue fd) \<Longrightarrow>
   try_fallback outbound ld = merge_fallback fd ld"
  by (simp add: try_fallback_def)

lemma handler_merged:
  assumes "level (dataQuality (extractLocationData now req)) = minimal \<or>
           level (dataQuality (extractLocationData now req)) = limited"
    and "outbound (fallback_url (extractLocationData now req)) = FetchResponse True (JsonValue fd)"
    and "merge_fallback fd (extractLocationData now req) = Inr ld'"
  shows "response_location (fst (handleEnhancedLocationRequest outbound now req)) = Some ld'"
  using assms by (simp add: handler_escalates try_fallback_ok response_location_def json_response_def)




lemma to_double_zero: "to_double 0 = Finite 0"
proof -
  have "(2::rat) ^ 970 < 2 ^ 1024"
    by (rule power_strict_increasing) simp_all
  then show ?thesis
    by (simp add: to_double_def)
qed

lemmas number_eval = parseFloat_def is_digit_def is_space_def digits_value_def exponent_part_def pow10_def
  Let_def to_double_zero

lemma raw_scorer_closed:
  "calculateDataQuality hs =
     \<lparr> score = (200 * int (availableFields (calculateDataQuality hs)) + 7) div 14,
       level = calculateDataQuality_level ((200 * int (availableFields (calculateDataQuality hs)) + 7) div 14),
       availableFields = availableFields (calculateDataQuality hs),
       totalFields = 7 \<rparr>"
  using score_raw [of hs] level_raw [of hs] totalFields_raw [of hs]
  by (intro quality.equality) simp_all

lemma enhanced_scorer_closed:
  "calculateEnhancedDataQuality ld =
     \<lparr> score = (200 * int (availableFields (calculateEnhancedDataQuality ld)) + 7) div 14,
       level = calculateEnhancedDataQuality_level
                 ((200 * int (availableFields (calculateEnhancedDataQuality ld)) + 7) div 14),
       availableFields = availableFields (calculateEnhancedDataQuality ld),
       totalFields = 7 \<rparr>"
  using score_enhanced [of ld] level_enhanced [of ld] totalFields_enhanced [of ld]
  by (intro quality.equality) simp_all

lemma equator_available:
  "availableFields (calculateDataQuality [(''CF-IPLatitude'', ''0'')]) = 1"
  by (simp add: availableFields_raw fields_list_def header_eval)

lemma equator_level:
  "level (dataQuality (extractLocationData now (sample_request path [(''CF-IPLatitude'', ''0'')]))) = minimal"
  by (simp add: extract_quality level_raw score_raw equator_available calculateDataQuality_level_def sample_request_def)

lemma equator_latitude:
  "latitude (extractLocationData now (sample_request path [(''CF-IPLatitude'', ''0'')])) = Number (Finite 0)"
  by (simp add: extract_fields header_eval number_eval)

text \<open>
  The source computes \<open>(availableFields / totalFields) * 100\<close> in doubles. For up to
  seven fields out of seven the exact value is at least 1/14 away from every point where
  the rounding changes, so any value within 1/14 of it (the double result is far
  closer) rounds to the same score.
\<close>

lemma Math_round_stable:
  assumes "k \<le> 7" and "\<bar>x - (of_nat k / of_nat 7) * 100\<bar> < 1 / 14"
  shows "Math_round x = Math_round ((of_nat k / of_nat 7) * 100)"
proof -
  have b: "(of_nat k / of_nat 7) * 100 - 1 / 14 < x" "x < (of_nat k / of_nat 7) * 100 + 1 / 14"
    using assms(2) by linarith+
  from assms(1) have "k \<in> {0, 1, 2, 3, 4, 5, 6, 7}" by auto
  then show ?thesis
    using b unfolding Math_round_sevenths
    by (auto simp add: Math_round_def floor_eq_iff)
qed

text \<open>
  A field read with \<open>headers.get(name) || null\<close> is \<open>null\<close> or truthy, so the merge
  keeps every string field of the baseline that is not \<open>null\<close>.
\<close>

lemma header_or_null_cases: "header_or_null hs name = Null \<or> truthy (header_or_null hs name)"
  by (simp add: header_or_null_def js_or_def split: option.splits)

lemma merge_keeps_baseline_strings:
  assumes "merge_fallback fd (extractLocationData now req) = Inr ld'"
  shows "city (extractLocationData now req) \<noteq> Null \<longrightarrow> city ld' = city (extractLocationData now req)"
    and "region (extractLocationData now req) \<noteq> Null \<longrightarrow> region ld' = region (extractLocationData now req)"
    and "timezone (extractLocationData now req) \<noteq> Null \<longrightarrow> timezone ld' = timezone (extractLocationData now req)"
    and "postalCode (extractLocationData now req) \<noteq> Null \<longrightarrow>
           postalCode ld' = postalCode (extractLocationData now req)"
  using header_or_null_cases [of "request.headers req"]
  by (auto simp add: merge_fallback_main [OF assms] extract_fields)

text \<open>
  A 2xx answer whose body parses to \<open>null\<close>: reading \<open>fallbackData.city\<close> throws, the
  inner \<open>catch\<close> records the message and nothing else was assigned.
\<close>

lemma null_body_sets_fallbackError:
  assumes "level (dataQuality (extractLocationData now req)) = minimal \<or>
           level (dataQuality (extractLocationData now req)) = limited"
    and "outbound (fallback_url (extractLocationData now req)) = FetchResponse True (JsonValue Null)"
  shows "fst (handleEnhancedLocationRequest outbound now req) =
           json_response 200 (LocationJson ((extractLocationData now req)
             \<lparr> fallbackError := Some (type_error_message Null ''city'') \<rparr>))"
  using assms by (simp add: handler_escalates try_fallback_def merge_fallback_closed)

lemma type_error_message_null:
  "type_error_message Null ''city'' = ''Cannot read properties of null (reading 'city')''"
  by (simp add: type_error_message_def)

text \<open>
  The raw scorer counts the header \<open>CF-IPPostalCode\<close>, the extractor reads the postal
  code from \<open>CF-postal-code\<close>: either header alone sets one of the two only.
\<close>

lemma postal_header_names_differ:
  "postalCode (extractLocationData now (sample_request path [(''CF-postal-code'', ''75001'')])) = Str ''75001'' \<and>
   availableFields (calculateDataQuality [(''CF-postal-code'', ''75001'')]) = 0 \<and>
   postalCode (extractLocationData now (sample_request path [(''CF-IPPostalCode'', ''75001'')])) = Null \<and>
   availableFields (calculateDataQuality [(''CF-IPPostalCode'', ''75001'')]) = 1"
  by (simp add: extract_fields availableFields_raw fields_list_def header_eval)

lemma france_available:
  "availableFields (calculateDataQuality [(''CF-IPCountry'', ''FR'')]) = 1"
  by (simp add: availableFields_raw fields_list_def header_eval)

lemma france_enhanced_available:
  "availableFields (calculateEnhancedDataQuality
      (extractLocationData sample_now (sample_request ''/location'' [(''CF-IPCountry'', ''FR'')]))) = 1"
  by (simp add: availableFields_enhanced mainFields_def locationData_prop_def extract_fields header_eval)

lemma three_headers_available:
  "availableFields (calculateDataQuality
     [(''CF-IPCountry'', ''FR''), (''CF-Region'', ''IDF''), (''CF-IPCity'', ''Paris'')]) = 3"
  by (simp add: availableFields_raw fields_list_def header_eval)

lemma three_headers_level:
  "level (dataQuality (extractLocationData now (sample_request path
     [(''CF-IPCountry'', ''FR''), (''CF-Region'', ''IDF''), (''CF-IPCity'', ''Paris'')]))) = fair"
  by (simp add: extract_quality level_raw score_raw three_headers_available
        calculateDataQuality_level_def sample_request_def)

lemma no_headers_ip: "ip (extractLocationData now (sample_request path [])) = ''unknown''"
  by (simp add: extract_ip header_eval)

section \<open>The claims\<close>

subsection \<open>The raw scorer\<close>


subsection \<open>The level ladder\<close>

text \<open>
  Claim C6. For every score from 0 to 100 the level follows the thresholds, the highest
  first: from 80 \<open>excellent\<close>, from 60 \<open>good\<close>, from 40 \<open>fair\<close>, from 20 \<open>limited\<close>,
  below that \<open>minimal\<close>; the initial value \<open>unknown\<close> is never the result, neither of
  the ladder nor of the raw scorer on any header set.
\<close>

theorem level_ladder:
  "0 \<le> s \<Longrightarrow> s \<le> 100 \<Longrightarrow>
     (80 \<le> s \<longrightarrow> calculateDataQuality_level s = excellent) \<and>
     (60 \<le> s \<and> s < 80 \<longrightarrow> calculateDataQuality_level s = good) \<and>
     (40 \<le> s \<and> s < 60 \<longrightarrow> calculateDataQuality_level s = fair) \<and>
     (20 \<le> s \<and> s < 40 \<longrightarrow> calculateDataQuality_level s = limited) \<and>
     (s < 20 \<longrightarrow> calculateDataQuality_level s = minimal) \<and>
     calculateDataQuality_level s \<noteq> unknown \<and>
     level (calculateDataQuality hs) \<noteq> unknown"
  by (simp add: level_raw calculateDataQuality_level_def)

text \<open>The ladder at the scores 86, 71, 43, 29 and 14, which the scorer produces.\<close>

theorem level_ladder_witness:
  "(0::int) \<le> 86 \<and> (86::int) \<le> 100 \<and>
   calculateDataQuality_level 86 = excellent \<and>
   calculateDataQuality_level 71 = good \<and>
   calculateDataQuality_level 43 = fair \<and>
   calculateDataQuality_level 29 = limited \<and>
   calculateDataQuality_level 14 = minimal \<and>
   calculateDataQuality_level 86 \<noteq> unknown"
  using level_ladder [of 86] level_ladder [of 71] level_ladder [of 43] level_ladder [of 29]
    level_ladder [of 14]
  by simp

text \<open>
  Claim C7, as amended. The thresholds are monotonic (a higher score never gives a
  lower tier) and exhaustive over the scores from 0 to 100 (every such score has one of
  the five tiers), and the ladder maps 79 to \<open>good\<close>, 80 to \<open>excellent\<close> and 0 to
  \<open>minimal\<close>.
\<close>

theorem level_monotone_exhaustive:
  "s \<le> t \<Longrightarrow> 0 \<le> u \<Longrightarrow> u \<le> 100 \<Longrightarrow>
     tier_rank (calculateDataQuality_level s) \<le> tier_rank (calculateDataQuality_level t) \<and>
     calculateDataQuality_level u \<in> {minimal, limited, fair, good, excellent} \<and>
     calculateDataQuality_level 79 = good \<and>
     calculateDataQuality_level 80 = excellent \<and>
     calculateDataQuality_level 0 = minimal"
  by (simp add: calculateDataQuality_level_def tier_rank_def)

text \<open>Two scores the scorer produces, 14 below 86, and the score 43.\<close>

theorem level_monotone_exhaustive_witness:
  "(14::int) \<le> 86 \<and> (0::int) \<le> 43 \<and> (43::int) \<le> 100 \<and>
   tier_rank (calculateDataQuality_level 14) \<le> tier_rank (calculateDataQuality_level 86) \<and>
   calculateDataQuality_level 43 \<in> {minimal, limited, fair, good, excellent} \<and>
   calculateDataQuality_level 79 = good"
  using level_monotone_exhaustive [of 14 86 43]
  by simp

text \<open>
  Claim C7 as stated has the score 79 at \<open>fair\<close>. The ladder compares 79 with 60 before
  it compares it with 40, so 79 is \<open>good\<close>.
\<close>

theorem score_79_is_good:
  "calculateDataQuality_level 79 = good \<and> calculateDataQuality_level 79 \<noteq> fair"
  by (simp add: calculateDataQuality_level_def)

text \<open>
  Claim C10. The two scorers count differently (a header that is present and not empty;
  a property that is not \<open>null\<close>) and are the same from there on: their ladders are
  the same function, and on equal counts of available fields they return the same
  score, level, availableFields and totalFields.
\<close>

theorem scorers_agree:
  "(\<forall>p. calculateDataQuality_level p = calculateEnhancedDataQuality_level p) \<and>
   availableFields (calculateDataQuality hs) =
     length (filter (\<lambda>field. header_truthy (headers_get hs field)) fields_list) \<and>
   availableFields (calculateEnhancedDataQuality ld) =
     length (filter (\<lambda>field. locationData_prop ld field \<noteq> Null) mainFields) \<and>
   (availableFields (calculateDataQuality hs) = availableFields (calculateEnhancedDataQuality ld) \<longrightarrow>
      calculateDataQuality hs = calculateEnhancedDataQuality ld)"
proof (intro conjI allI impI)
  fix p show "calculateDataQuality_level p = calculateEnhancedDataQuality_level p"
    by (rule levels_agree)
next
  show "availableFields (calculateDataQuality hs) =
     length (filter (\<lambda>field. header_truthy (headers_get hs field)) fields_list)"
    by (rule availableFields_raw)
next
  show "availableFields (calculateEnhancedDataQuality ld) =
     length (filter (\<lambda>field. locationData_prop ld field \<noteq> Null) mainFields)"
    by (rule availableFields_enhanced)
next
  assume "availableFields (calculateDataQuality hs) = availableFields (calculateEnhancedDataQuality ld)"
  then show "calculateDataQuality hs = calculateEnhancedDataQuality ld"
    by (subst raw_scorer_closed, subst enhanced_scorer_closed) (simp add: levels_agree)
qed

text \<open>
  A request with the country header only, and the record extracted from it: one
  available field on both sides, and the same assessment.
\<close>

theorem scorers_agree_witness:
  "availableFields (calculateDataQuality [(''CF-IPCountry'', ''FR'')]) =
     availableFields (calculateEnhancedDataQuality
       (extractLocationData sample_now (sample_request ''/location'' [(''CF-IPCountry'', ''FR'')]))) \<and>
   calculateDataQuality [(''CF-IPCountry'', ''FR'')] =
     calculateEnhancedDataQuality
       (extractLocationData sample_now (sample_request ''/location'' [(''CF-IPCountry'', ''FR'')])) \<and>
   calculateDataQuality [(''CF-IPCountry'', ''FR'')] =
     \<lparr> score = 14, level = minimal, availableFields = 1, totalFields = 7 \<rparr>"
proof -
  have v: "calculateDataQuality [(''CF-IPCountry'', ''FR'')] =
     \<lparr> score = 14, level = minimal, availableFields = 1, totalFields = 7 \<rparr>"
    by (subst raw_scorer_closed) (simp add: france_available calculateDataQuality_level_def)
  have h: "availableFields (calculateDataQuality [(''CF-IPCountry'', ''FR'')]) =
     availableFields (calculateEnhancedDataQuality
       (extractLocationData sample_now (sample_request ''/location'' [(''CF-IPCountry'', ''FR'')])))"
    by (simp only: france_available france_enhanced_available)
  show ?thesis
    using scorers_agree [of "[(''CF-IPCountry'', ''FR'')]"
        "extractLocationData sample_now (sample_request ''/location'' [(''CF-IPCountry'', ''FR'')])"]
      h v
    by blast
qed

subsection \<open>The extractor\<close>

text \<open>
  Claim C8. For every request the extracted \<open>ipType\<close> is \<open>IPv6\<close> exactly when the
  resolved \<open>ip\<close> contains a colon, and \<open>IPv4\<close> otherwise; a connecting-IP header
  \<open>2001:db8::1\<close> gives \<open>IPv6\<close>; without a connecting-IP and a forwarded-for header the
  resolved \<open>ip\<close> is \<open>unknown\<close> and the type \<open>IPv4\<close>.
\<close>

theorem ipType_by_colon:
  "(ipType (extractLocationData now req) = ''IPv6'' \<longleftrightarrow>
      CHR '':'' \<in> set (ip (extractLocationData now req))) \<and>
   (ipType (extractLocationData now req) = ''IPv4'' \<longleftrightarrow>
      CHR '':'' \<notin> set (ip (extractLocationData now req))) \<and>
   (headers_get (request.headers req) ''CF-Connecting-IP'' = Some ''2001:db8::1'' \<longrightarrow>
      ip (extractLocationData now req) = ''2001:db8::1'' \<and>
      ipType (extractLocationData now req) = ''IPv6'') \<and>
   (headers_get (request.headers req) ''CF-Connecting-IP'' = None \<and>
    headers_get (request.headers req) ''X-Forwarded-For'' = None \<longrightarrow>
      ip (extractLocationData now req) = ''unknown'' \<and>
      ipType (extractLocationData now req) = ''IPv4'')"
proof (intro conjI impI)
  show "ipType (extractLocationData now req) = ''IPv6'' \<longleftrightarrow>
      CHR '':'' \<in> set (ip (extractLocationData now req))"
    by (simp add: extract_ipType)
  show "ipType (extractLocationData now req) = ''IPv4'' \<longleftrightarrow>
      CHR '':'' \<notin> set (ip (extractLocationData now req))"
    by (simp add: extract_ipType)
next
  assume "headers_get (request.headers req) ''CF-Connecting-IP'' = Some ''2001:db8::1''"
  then show i: "ip (extractLocationData now req) = ''2001:db8::1''"
    by (simp add: extract_ip header_truthy_def)
  show "ipType (extractLocationData now req) = ''IPv6''"
    unfolding extract_ipType i by simp
next
  assume "headers_get (request.headers req) ''CF-Connecting-IP'' = None \<and>
    headers_get (request.headers req) ''X-Forwarded-For'' = None"
  then show i: "ip (extractLocationData now req) = ''unknown''"
    by (simp add: extract_ip header_truthy_def)
  show "ipType (extractLocationData now req) = ''IPv4''"
    unfolding extract_ipType i by simp
qed

text \<open>A request with the connecting-IP header of the scenario, and one without any header.\<close>

theorem ipType_by_colon_witness:
  "headers_get (request.headers (sample_request ''/location'' [(''CF-Connecting-IP'', ''2001:db8::1'')]))
     ''CF-Connecting-IP'' = Some ''2001:db8::1'' \<and>
   ipType (extractLocationData sample_now
     (sample_request ''/location'' [(''CF-Connecting-IP'', ''2001:db8::1'')])) = ''IPv6'' \<and>
   headers_get (request.headers (sample_request ''/location'' [])) ''CF-Connecting-IP'' = None \<and>
   headers_get (request.headers (sample_request ''/location'' [])) ''X-Forwarded-For'' = None \<and>
   ip (extractLocationData sample_now (sample_request ''/location'' [])) = ''unknown'' \<and>
   ipType (extractLocationData sample_now (sample_request ''/location'' [])) = ''IPv4''"
  using ipType_by_colon [of sample_now "sample_request ''/location'' [(''CF-Connecting-IP'', ''2001:db8::1'')]"]
        ipType_by_colon [of sample_now "sample_request ''/location'' []"]
  by (simp add: sample_request_def headers_get_Cons headers_get_Nil)

subsection \<open>Routing\<close>

text \<open>
  Claim C9, as amended. For every request that is no preflight (a GET request in
  particular) and whose path is none of \<open>/\<close>, \<open>/location\<close>, \<open>/location-enhanced\<close> and
  \<open>/health\<close>, the response has status 404 and its body is the text \<open>Not Found\<close>; it
  carries the CORS headers and nothing is fetched.
\<close>

theorem unknown_route_404:
  "http_method req \<noteq> ''OPTIONS'' \<Longrightarrow>
   pathname req \<notin> {''/'', ''/location'', ''/location-enhanced'', ''/health''} \<Longrightarrow>
   fetch outbound now req =
     (\<lparr> status = 404, response.headers = getCORSHeaders, body = Text ''Not Found'' \<rparr>, [])"
  by (simp add: fetch_def)

text \<open>A GET request for \<open>/nope\<close>.\<close>

theorem unknown_route_404_witness:
  "http_method (sample_request ''/nope'' []) \<noteq> ''OPTIONS'' \<and>
   http_method (sample_request ''/nope'' []) = ''GET'' \<and>
   pathname (sample_request ''/nope'' []) \<notin> {''/'', ''/location'', ''/location-enhanced'', ''/health''} \<and>
   fetch outbound_offline sample_now (sample_request ''/nope'' []) =
     (\<lparr> status = 404, response.headers = getCORSHeaders, body = Text ''Not Found'' \<rparr>, [])"
  using unknown_route_404 [of "sample_request ''/nope'' []" outbound_offline sample_now]
  by (simp add: sample_request_def)

text \<open>
  Claim C9 as stated has an empty body. The GET request for \<open>/nope\<close> is answered 404
  with the body \<open>Not Found\<close>, which is neither absent nor the empty text.
\<close>

theorem unknown_route_body_not_empty:
  "http_method (sample_request ''/nope'' []) = ''GET'' \<and>
   status (fst (fetch outbound_offline sample_now (sample_request ''/nope'' []))) = 404 \<and>
   body (fst (fetch outbound_offline sample_now (sample_request ''/nope'' []))) = Text ''Not Found'' \<and>
   body (fst (fetch outbound_offline sample_now (sample_request ''/nope'' []))) \<noteq> NoBody \<and>
   body (fst (fetch outbound_offline sample_now (sample_request ''/nope'' []))) \<noteq> Text ''''"
  by (simp add: fetch_def sample_request_def)

subsection \<open>The enhanced route\<close>

text \<open>
  Claim C4. The enhanced route makes the outbound call exactly when the baseline level
  is \<open>minimal\<close> or \<open>limited\<close>. At such a level one URL is fetched, that of the resolved
  \<open>ip\<close>, and the response is made from the answer to it: two worlds that answer that
  URL alike get the same response, a call that throws leaves its message in the
  response as \<open>fallbackError\<close>, and a 2xx answer with a parsed body other than \<open>null\<close>
  leaves \<open>fallback\<close> and \<open>enhanced\<close> in it. At the levels \<open>fair\<close>, \<open>good\<close> and
  \<open>excellent\<close> nothing is fetched: the response is the same in every world, and its
  record has no \<open>fallback\<close>, no \<open>fallbackError\<close>, no \<open>enhanced\<close> and no \<open>enhancedScore\<close>.
\<close>

theorem escalation_iff_low_tier:
  "(snd (handleEnhancedLocationRequest outbound now req) \<noteq> [] \<longleftrightarrow>
      level (dataQuality (extractLocationData now req)) = minimal \<or>
      level (dataQuality (extractLocationData now req)) = limited) \<and>
   (level (dataQuality (extractLocationData now req)) = minimal \<or>
    level (dataQuality (extractLocationData now req)) = limited \<longrightarrow>
      snd (handleEnhancedLocationRequest outbound now req) =
        [''https://ipapi.co/'' @ ip (extractLocationData now req) @ ''/json/''] \<and>
      (outbound (''https://ipapi.co/'' @ ip (extractLocationData now req) @ ''/json/'') =
       outbound' (''https://ipapi.co/'' @ ip (extractLocationData now req) @ ''/json/'') \<longrightarrow>
         handleEnhancedLocationRequest outbound now req =
         handleEnhancedLocationRequest outbound' now req) \<and>
      (outbound (''https://ipapi.co/'' @ ip (extractLocationData now req) @ ''/json/'') =
         FetchThrows message \<longrightarrow>
         map_option fallbackError
           (response_location (fst (handleEnhancedLocationRequest outbound now req))) =
         Some (Some message)) \<and>
      (outbound (''https://ipapi.co/'' @ ip (extractLocationData now req) @ ''/json/'') =
         FetchResponse True (JsonValue fallbackData) \<and>
       fallbackData \<noteq> Null \<and> fallbackData \<noteq> Undefined \<longrightarrow>
         (\<exists>ld. response_location (fst (handleEnhancedLocationRequest outbound now req)) = Some ld \<and>
               fallback ld \<noteq> None \<and> fallbackError ld = None \<and>
               enhanced (dataQuality ld) = Some True))) \<and>
   (level (dataQuality (extractLocationData now req)) \<in> {fair, good, excellent} \<longrightarrow>
      snd (handleEnhancedLocationRequest outbound now req) = [] \<and>
      handleEnhancedLocationRequest outbound now req =
        handleEnhancedLocationRequest outbound' now req \<and>
      (\<exists>ld. response_location (fst (handleEnhancedLocationRequest outbound now req)) = Some ld \<and>
            fallback ld = None \<and> fallbackError ld = None \<and>
            enhanced (dataQuality ld) = None \<and> enhancedScore (dataQuality ld) = None))"
proof -
  let ?ld = "extractLocationData now req"
  let ?low = "level (dataQuality ?ld) = minimal \<or> level (dataQuality ?ld) = limited"
  have u: "''https://ipapi.co/'' @ ip ?ld @ ''/json/'' = fallback_url ?ld"
    by (simp add: fallback_url_def)
  have iff: "snd (handleEnhancedLocationRequest outbound now req) \<noteq> [] \<longleftrightarrow> ?low"
    by (cases ?low) (simp_all add: handler_escalates handler_skips)
  have low: "snd (handleEnhancedLocationRequest outbound now req) = [fallback_url ?ld] \<and>
      (outbound (fallback_url ?ld) = outbound' (fallback_url ?ld) \<longrightarrow>
         handleEnhancedLocationRequest outbound now req =
         handleEnhancedLocationRequest outbound' now req) \<and>
      (outbound (fallback_url ?ld) = FetchThrows message \<longrightarrow>
         map_option fallbackError
           (response_location (fst (handleEnhancedLocationRequest outbound now req))) =
         Some (Some message)) \<and>
      (outbound (fallback_url ?ld) = FetchResponse True (JsonValue fallbackData) \<and>
       fallbackData \<noteq> Null \<and> fallbackData \<noteq> Undefined \<longrightarrow>
         (\<exists>ld. response_location (fst (handleEnhancedLocationRequest outbound now req)) = Some ld \<and>
               fallback ld \<noteq> None \<and> fallbackError ld = None \<and>
               enhanced (dataQuality ld) = Some True))" if l: ?low
  proof (intro conjI impI)
    show "snd (handleEnhancedLocationRequest outbound now req) = [fallback_url ?ld]"
      by (simp add: handler_escalates [OF l])
  next
    assume "outbound (fallback_url ?ld) = outbound' (fallback_url ?ld)"
    then have "try_fallback outbound ?ld = try_fallback outbound' ?ld"
      by (rule try_fallback_reads_one_url)
    then show "handleEnhancedLocationRequest outbound now req =
         handleEnhancedLocationRequest outbound' now req"
      by (simp add: handler_escalates [OF l])
  next
    assume "outbound (fallback_url ?ld) = FetchThrows message"
    then have "try_fallback outbound ?ld = Inl message"
      by (simp add: try_fallback_def)
    then show "map_option fallbackError
           (response_location (fst (handleEnhancedLocationRequest outbound now req))) =
         Some (Some message)"
      by (simp add: handler_escalates [OF l] response_location_def json_response_def)
  next
    assume a: "outbound (fallback_url ?ld) = FetchResponse True (JsonValue fallbackData) \<and>
       fallbackData \<noteq> Null \<and> fallbackData \<noteq> Undefined"
    then obtain ld' where m: "merge_fallback fallbackData ?ld = Inr ld'"
      using merge_fallback_returns [of fallbackData ?ld] by auto
    have r: "response_location (fst (handleEnhancedLocationRequest outbound now req)) = Some ld'"
      using a by (intro handler_merged [OF l _ m]) simp
    have e: "fallbackError ld' = None"
      using merge_fallback_frame [OF m] by (simp add: extract_quality)
    show "\<exists>ld. response_location (fst (handleEnhancedLocationRequest outbound now req)) = Some ld \<and>
               fallback ld \<noteq> None \<and> fallbackError ld = None \<and>
               enhanced (dataQuality ld) = Some True"
      using r e merge_fallback_sets_fallback [OF m] merge_fallback_main(7) [OF m] by simp
  qed
  have high: "snd (handleEnhancedLocationRequest outbound now req) = [] \<and>
      handleEnhancedLocationRequest outbound now req =
        handleEnhancedLocationRequest outbound' now req \<and>
      (\<exists>ld. response_location (fst (handleEnhancedLocationRequest outbound now req)) = Some ld \<and>
            fallback ld = None \<and> fallbackError ld = None \<and>
            enhanced (dataQuality ld) = None \<and> enhancedScore (dataQuality ld) = None)"
    if h: "level (dataQuality ?ld) \<in> {fair, good, excellent}"
  proof -
    from h have n: "level (dataQuality ?ld) \<noteq> minimal" "level (dataQuality ?ld) \<noteq> limited"
      by auto
    have r: "handleEnhancedLocationRequest outbound now req =
           (json_response 200 (LocationJson ?ld), [])"
      by (rule handler_skips [OF n])
    have r': "handleEnhancedLocationRequest outbound' now req =
           (json_response 200 (LocationJson ?ld), [])"
      by (rule handler_skips [OF n])
    show ?thesis
      by (simp add: r r' response_location_def json_response_def extract_quality)
  qed
  show ?thesis
    unfolding u using iff low high by blast
qed

text \<open>
  A request with three of the seven headers (level \<open>fair\<close>): nothing is fetched and
  the response is the same whether the service knows Paris or is out of reach. A request
  without headers (level \<open>minimal\<close>): the URL of the address \<open>unknown\<close> is fetched; out
  of reach, the message of the failure is in the response; with the answer for Paris,
  \<open>fallback\<close> and \<open>enhanced\<close> are; and the two responses differ.
\<close>

theorem escalation_iff_low_tier_witness:
  "level (dataQuality (extractLocationData sample_now (sample_request ''/location-enhanced''
     [(''CF-IPCountry'', ''FR''), (''CF-Region'', ''IDF''), (''CF-IPCity'', ''Paris'')])))
     \<in> {fair, good, excellent} \<and>
   snd (handleEnhancedLocationRequest outbound_paris sample_now (sample_request ''/location-enhanced''
     [(''CF-IPCountry'', ''FR''), (''CF-Region'', ''IDF''), (''CF-IPCity'', ''Paris'')])) = [] \<and>
   handleEnhancedLocationRequest outbound_paris sample_now (sample_request ''/location-enhanced''
     [(''CF-IPCountry'', ''FR''), (''CF-Region'', ''IDF''), (''CF-IPCity'', ''Paris'')]) =
   handleEnhancedLocationRequest outbound_offline sample_now (sample_request ''/location-enhanced''
     [(''CF-IPCountry'', ''FR''), (''CF-Region'', ''IDF''), (''CF-IPCity'', ''Paris'')]) \<and>
   level (dataQuality (extractLocationData sample_now (sample_request ''/location-enhanced'' []))) = minimal \<and>
   snd (handleEnhancedLocationRequest outbound_paris sample_now (sample_request ''/location-enhanced'' []))
     = [''https://ipapi.co/unknown/json/''] \<and>
   outbound_offline ''https://ipapi.co/unknown/json/'' = FetchThrows ''Network connection lost'' \<and>
   map_option fallbackError (response_location (fst (handleEnhancedLocationRequest outbound_offline
     sample_now (sample_request ''/location-enhanced'' [])))) = Some (Some ''Network connection lost'') \<and>
   outbound_paris ''https://ipapi.co/unknown/json/'' =
     FetchResponse True (JsonValue (Obj [(''city'', Str ''Paris''), (''region'', Str ''IDF'')])) \<and>
   map_option fallbackError (response_location (fst (handleEnhancedLocationRequest outbound_paris
     sample_now (sample_request ''/location-enhanced'' [])))) = Some None \<and>
   handleEnhancedLocationRequest outbound_paris sample_now (sample_request ''/location-enhanced'' []) \<noteq>
   handleEnhancedLocationRequest outbound_offline sample_now (sample_request ''/location-enhanced'' []) \<and>
   handleEnhancedLocationRequest outbound_paris sample_now (sample_request ''/location-enhanced'' []) =
   handleEnhancedLocationRequest
     (outbound_offline(''https://ipapi.co/unknown/json/'' := outbound_paris ''https://ipapi.co/unknown/json/''))
     sample_now (sample_request ''/location-enhanced'' [])"
proof -
  let ?fair = "sample_request ''/location-enhanced''
     [(''CF-IPCountry'', ''FR''), (''CF-Region'', ''IDF''), (''CF-IPCity'', ''Paris'')]"
  let ?bare = "sample_request ''/location-enhanced'' []"
  let ?fd = "Obj [(''city'', Str ''Paris''), (''region'', Str ''IDF'')]"
  let ?patched = "outbound_offline(''https://ipapi.co/unknown/json/'' :=
     outbound_paris ''https://ipapi.co/unknown/json/'')"
  have f: "level (dataQuality (extractLocationData sample_now ?fair)) \<in> {fair, good, excellent}"
    by (simp add: three_headers_level)
  have m: "level (dataQuality (extractLocationData sample_now ?bare)) = minimal"
    by (rule no_headers_level)
  have i: "ip (extractLocationData sample_now ?bare) = ''unknown''"
    by (rule no_headers_ip)
  have o: "outbound_offline ''https://ipapi.co/unknown/json/'' = FetchThrows ''Network connection lost''"
    by (simp add: outbound_offline_def)
  have p: "outbound_paris ''https://ipapi.co/unknown/json/'' = FetchResponse True (JsonValue ?fd)"
    by (simp add: outbound_paris_def)
  have q: "outbound_paris ''https://ipapi.co/unknown/json/'' = ?patched ''https://ipapi.co/unknown/json/''"
    by simp
  note high = escalation_iff_low_tier [where outbound = outbound_paris and now = sample_now
      and req = ?fair and outbound' = outbound_offline and message = "[]" and fallbackData = Null]
  note thrown = escalation_iff_low_tier [where outbound = outbound_offline and now = sample_now
      and req = ?bare and outbound' = outbound_offline and message = "''Network connection lost''"
      and fallbackData = Null, unfolded i append_Cons append_Nil]
  note merged = escalation_iff_low_tier [where outbound = outbound_paris and now = sample_now
      and req = ?bare and outbound' = ?patched and message = "[]" and fallbackData = ?fd,
      unfolded i append_Cons append_Nil]
  have h1: "snd (handleEnhancedLocationRequest outbound_paris sample_now ?fair) = []"
    and h2: "handleEnhancedLocationRequest outbound_paris sample_now ?fair =
             handleEnhancedLocationRequest outbound_offline sample_now ?fair"
    using high f by blast+
  have t: "map_option fallbackError (response_location (fst (handleEnhancedLocationRequest outbound_offline
      sample_now ?bare))) = Some (Some ''Network connection lost'')"
    using thrown m o by blast
  have s: "snd (handleEnhancedLocationRequest outbound_paris sample_now ?bare)
      = [''https://ipapi.co/unknown/json/'']"
    using merged m by blast
  have c: "handleEnhancedLocationRequest outbound_paris sample_now ?bare =
            handleEnhancedLocationRequest ?patched sample_now ?bare"
    using merged m q by blast
  have "\<exists>ld. response_location (fst (handleEnhancedLocationRequest outbound_paris sample_now ?bare)) = Some ld \<and>
               fallback ld \<noteq> None \<and> fallbackError ld = None \<and>
               enhanced (dataQuality ld) = Some True"
    using merged m p by blast
  then have e: "map_option fallbackError (response_location (fst (handleEnhancedLocationRequest outbound_paris
      sample_now ?bare))) = Some None"
    by auto
  have d: "handleEnhancedLocationRequest outbound_paris sample_now ?bare \<noteq>
           handleEnhancedLocationRequest outbound_offline sample_now ?bare"
    using t e by auto
  show ?thesis
    using f h1 h2 m s o t p e d c by simp
qed

text \<open>
  Claim C2, as amended. On the enhanced route with a baseline level \<open>minimal\<close> or
  \<open>limited\<close> the response status is 200 whatever the outbound call does. When the call
  throws (a network error) or the body of a 2xx answer cannot be parsed, the message of
  the failure is attached as \<open>fallbackError\<close> and the baseline record is returned
  otherwise unmodified. When the answer has a status that is not 2xx, the baseline
  record is returned unmodified, without \<open>fallbackError\<close>.
\<close>

theorem enhancement_failure_keeps_200:
  assumes "level (dataQuality (extractLocationData now req)) = minimal \<or>
           level (dataQuality (extractLocationData now req)) = limited"
  shows "status (fst (handleEnhancedLocationRequest outbound now req)) = 200 \<and>
    (outbound (fallback_url (extractLocationData now req)) = FetchThrows message \<longrightarrow>
       fst (handleEnhancedLocationRequest outbound now req) =
         json_response 200
           (LocationJson ((extractLocationData now req)\<lparr> fallbackError := Some message \<rparr>))) \<and>
    (outbound (fallback_url (extractLocationData now req)) = FetchResponse True (JsonThrows message) \<longrightarrow>
       fst (handleEnhancedLocationRequest outbound now req) =
         json_response 200
           (LocationJson ((extractLocationData now req)\<lparr> fallbackError := Some message \<rparr>))) \<and>
    (outbound (fallback_url (extractLocationData now req)) = FetchResponse False parsed \<longrightarrow>
       fst (handleEnhancedLocationRequest outbound now req) =
         json_response 200 (LocationJson (extractLocationData now req)))"
  using assms
  by (auto simp add: handler_escalates try_fallback_def json_response_def split: sum.splits)

text \<open>
  The request without headers (level \<open>minimal\<close>), with the service out of reach, with
  a body that is no JSON, and with an answer that is not 2xx.
\<close>

theorem enhancement_failure_keeps_200_witness:
  "level (dataQuality (extractLocationData sample_now (sample_request ''/location-enhanced'' []))) = minimal \<and>
   outbound_offline (fallback_url (extractLocationData sample_now (sample_request ''/location-enhanced'' [])))
     = FetchThrows ''Network connection lost'' \<and>
   fst (handleEnhancedLocationRequest outbound_offline sample_now (sample_request ''/location-enhanced'' [])) =
     json_response 200 (LocationJson
       ((extractLocationData sample_now (sample_request ''/location-enhanced'' []))
          \<lparr> fallbackError := Some ''Network connection lost'' \<rparr>)) \<and>
   outbound_bad_json (fallback_url (extractLocationData sample_now (sample_request ''/location-enhanced'' [])))
     = FetchResponse True (JsonThrows ''Unexpected end of JSON input'') \<and>
   fst (handleEnhancedLocationRequest outbound_bad_json sample_now (sample_request ''/location-enhanced'' [])) =
     json_response 200 (LocationJson
       ((extractLocationData sample_now (sample_request ''/location-enhanced'' []))
          \<lparr> fallbackError := Some ''Unexpected end of JSON input'' \<rparr>)) \<and>
   fst (handleEnhancedLocationRequest outbound_rate_limited sample_now (sample_request ''/location-enhanced'' [])) =
     json_response 200 (LocationJson (extractLocationData sample_now (sample_request ''/location-enhanced'' []))) \<and>
   status (fst (handleEnhancedLocationRequest outbound_rate_limited sample_now
     (sample_request ''/location-enhanced'' []))) = 200"
proof -
  let ?req = "sample_request ''/location-enhanced'' []"
  have m: "level (dataQuality (extractLocationData sample_now ?req)) = minimal \<or>
           level (dataQuality (extractLocationData sample_now ?req)) = limited"
    by (simp add: no_headers_level)
  show ?thesis
    using enhancement_failure_keeps_200 [OF m, where outbound = outbound_offline
            and message = "''Network connection lost''"]
          enhancement_failure_keeps_200 [OF m, where outbound = outbound_bad_json
            and message = "''Unexpected end of JSON input''"]
          enhancement_failure_keeps_200 [OF m, where outbound = outbound_rate_limited
            and parsed = "JsonValue (Obj [(''error'', Boolean True), (''reason'', Str ''RateLimited'')])"]
    by (simp add: no_headers_level outbound_offline_def outbound_bad_json_def outbound_rate_limited_def
          json_response_def)
qed

text \<open>
  Claim C2 as stated attaches \<open>fallbackError\<close> on an answer that is not 2xx as well.
  The request without headers has the level \<open>minimal\<close>; the service refuses with such a
  status; the response is 200 and its record has no \<open>fallbackError\<close>.
\<close>

theorem non_ok_answer_leaves_no_fallbackError:
  "level (dataQuality (extractLocationData sample_now (sample_request ''/location-enhanced'' []))) = minimal \<and>
   outbound_rate_limited (fallback_url (extractLocationData sample_now (sample_request ''/location-enhanced'' [])))
     = FetchResponse False (JsonValue (Obj [(''error'', Boolean True), (''reason'', Str ''RateLimited'')])) \<and>
   status (fst (handleEnhancedLocationRequest outbound_rate_limited sample_now
     (sample_request ''/location-enhanced'' []))) = 200 \<and>
   map_option fallbackError (response_location (fst (handleEnhancedLocationRequest outbound_rate_limited
     sample_now (sample_request ''/location-enhanced'' [])))) = Some None"
proof -
  let ?req = "sample_request ''/location-enhanced'' []"
  have m: "level (dataQuality (extractLocationData sample_now ?req)) = minimal"
    by (rule no_headers_level)
  have r: "fst (handleEnhancedLocationRequest outbound_rate_limited sample_now ?req) =
      json_response 200 (LocationJson (extractLocationData sample_now ?req))"
    by (simp add: handler_escalates m try_fallback_def outbound_rate_limited_def)
  have e: "fallbackError (extractLocationData sample_now ?req) = None"
    by (rule extract_quality)
  show ?thesis
    unfolding r by (simp add: m e outbound_rate_limited_def response_location_def json_response_def)
qed

text \<open>
  Claim C3 says that a baseline field that was not \<open>null\<close> keeps its value in the
  merge. The code at a request whose latitude header is \<open>0\<close>: the baseline level is
  \<open>minimal\<close>, the baseline latitude is the number 0, and after the merge with an answer
  that has the latitude 48.85 the latitude of the response is 48.85.
\<close>

theorem equator_latitude_overwritten:
  "level (dataQuality (extractLocationData sample_now
      (sample_request ''/location-enhanced'' [(''CF-IPLatitude'', ''0'')]))) = minimal \<and>
   latitude (extractLocationData sample_now
      (sample_request ''/location-enhanced'' [(''CF-IPLatitude'', ''0'')])) = Number (Finite 0) \<and>
   map_option latitude (response_location (fst (handleEnhancedLocationRequest outbound_latitude sample_now
      (sample_request ''/location-enhanced'' [(''CF-IPLatitude'', ''0'')])))) = Some (Number (Finite (977 / 20)))"
proof -
  let ?req = "sample_request ''/location-enhanced'' [(''CF-IPLatitude'', ''0'')]"
  let ?ld = "extractLocationData sample_now ?req"
  let ?fd = "Obj [(''latitude'', Number (Finite (977 / 20)))]"
  obtain ld' where m: "merge_fallback ?fd ?ld = Inr ld'"
    using merge_fallback_returns [of ?fd ?ld] by auto
  have r: "response_location (fst (handleEnhancedLocationRequest outbound_latitude sample_now ?req)) = Some ld'"
    by (rule handler_merged [OF _ _ m]) (simp_all add: equator_level outbound_latitude_def)
  have "latitude ld' = Number (Finite (977 / 20))"
    by (simp add: merge_fallback_main(3) [OF m] equator_latitude get_property_def)
  then show ?thesis
    by (simp add: r equator_level equator_latitude)
qed

text \<open>
  Claim C5 says that in scenario E the four fields the answer lacks remain unset and
  that \<open>enhancedScore.availableFields\<close> is the number of attributes set on the merged
  record. The code at the request without headers and the answer with the city Paris
  and the region IDF only: city and region are merged and \<open>enhanced\<close> is true; the four
  other fields become \<open>undefined\<close>; two attributes are set on the merged record; the
  enhanced score counts six available fields.
\<close>

theorem paris_enhanced_score_counts_undefined:
  "level (dataQuality (extractLocationData sample_now (sample_request ''/location-enhanced'' []))) = minimal \<and>
   (\<exists>ld. response_location (fst (handleEnhancedLocationRequest outbound_paris sample_now
             (sample_request ''/location-enhanced'' []))) = Some ld \<and>
      city ld = Str ''Paris'' \<and> region ld = Str ''IDF'' \<and>
      latitude ld = Undefined \<and> longitude ld = Undefined \<and>
      timezone ld = Undefined \<and> postalCode ld = Undefined \<and>
      enhanced (dataQuality ld) = Some True \<and>
      enhancedScore (dataQuality ld) =
        Some \<lparr> score = 86, level = excellent, availableFields = 6, totalFields = 7 \<rparr> \<and>
      set_attributes ld = 2)"
proof -
  let ?req = "sample_request ''/location-enhanced'' []"
  let ?ld = "extractLocationData sample_now ?req"
  let ?fd = "Obj [(''city'', Str ''Paris''), (''region'', Str ''IDF'')]"
  obtain ld' where m: "merge_fallback ?fd ?ld = Inr ld'"
    using merge_fallback_returns [of ?fd ?ld] by auto
  have r: "response_location (fst (handleEnhancedLocationRequest outbound_paris sample_now ?req)) = Some ld'"
    by (rule handler_merged [OF _ _ m]) (simp_all add: no_headers_level outbound_paris_def)
  have f: "city ld' = Str ''Paris''" "region ld' = Str ''IDF''" "latitude ld' = Undefined"
    "longitude ld' = Undefined" "timezone ld' = Undefined" "postalCode ld' = Undefined"
    "country ld' = Null"
    using merge_fallback_frame [OF m]
    by (simp_all add: merge_fallback_main [OF m] extract_fields header_eval get_property_def)
  have k: "availableFields (calculateEnhancedDataQuality ld') = 6"
    by (simp add: availableFields_enhanced mainFields_def locationData_prop_def f)
  have q: "calculateEnhancedDataQuality ld' =
      \<lparr> score = 86, level = excellent, availableFields = 6, totalFields = 7 \<rparr>"
    by (subst enhanced_scorer_closed) (simp add: k calculateEnhancedDataQuality_level_def)
  have s: "set_attributes ld' = 2"
    by (simp add: set_attributes_def mainFields_def locationData_prop_def f)
  show ?thesis
    using f s
    by (simp add: r no_headers_level merge_fallback_main(7) [OF m] merge_fallback_enhancedScore [OF m] q)
qed

end
